theory Spec2Isabelle
  imports Complex_Main
begin

section \<open>Data model of \<open>pysmiles/smiles_helper.py\<close>\<close>

text \<open>
  A molecule is a networkx graph whose nodes and edges carry attribute dictionaries.
  A node dictionary becomes a record of optional fields (a key that is absent is
  \<open>None\<close>), an edge dictionary is reduced to its only key the helpers read, \<open>order\<close>.
  Node keys are the natural numbers the SMILES reader hands out. Bond orders are Python
  numbers (1, 2, 3 and the float 1.5); every value that occurs is a multiple of one
  half, on which float arithmetic is exact, so orders are rationals here.
  The graph keeps the iteration order of \<open>mol.nodes\<close> and \<open>mol.edges\<close>: both are lists.
\<close>

datatype error = ValueError | IndexError | AssertionError | KeyError | SyntaxError | NetworkXError

record atom =
  element :: "string option"
  charge :: "int option"
  hcount :: "int option"
  aromatic :: "bool option"
  isotope :: "int option"
  atom_class :: "int option"  \<comment> \<open>the key \<open>class\<close>\<close>
  stereo :: "string option"

type_synonym edge = "nat \<times> nat \<times> rat option"

record graph =
  nodes :: "(nat \<times> atom) list"
  edges :: "edge list"

definition get_default :: "'a \<Rightarrow> 'a option \<Rightarrow> 'a" where
  \<comment> \<open>\<open>d.get(key, default)\<close> on an optional field\<close>
  "get_default d x = (case x of None \<Rightarrow> d | Some v \<Rightarrow> v)"

definition node_ids :: "graph \<Rightarrow> nat list" where
  "node_ids g = map fst (nodes g)"

definition node_attr :: "graph \<Rightarrow> nat \<Rightarrow> atom option" where
  \<comment> \<open>\<open>mol.nodes[n]\<close>; \<open>None\<close> stands for the KeyError of a node that is not in the graph\<close>
  "node_attr g n = map_of (nodes g) n"

definition update_node :: "nat \<Rightarrow> (atom \<Rightarrow> atom) \<Rightarrow> graph \<Rightarrow> graph" where
  \<comment> \<open>in-place change of the attribute dictionary of node \<open>n\<close>\<close>
  "update_node n f g = g\<lparr>nodes := map (\<lambda>(k, a). if k = n then (k, f a) else (k, a)) (nodes g)\<rparr>"


section \<open>Valence model\<close>

definition ORBITAL_SIZES :: "int list list" where
  "ORBITAL_SIZES = [[2], [2, 6], [2, 6], [2, 10, 6], [2, 10, 6], [2, 14, 10, 6]]"

definition ELECTRON_COUNTS :: "(string \<times> int) list" where
  "ELECTRON_COUNTS = [(''H'', 1), (''B'', 5), (''C'', 6), (''N'', 7), (''O'', 8), (''F'', 9),
     (''P'', 15), (''S'', 16), (''Cl'', 17), (''As'', 33), (''Se'', 34), (''Br'', 35), (''I'', 53)]"

definition upper_char :: "char \<Rightarrow> char" where
  "upper_char c = (let n = (of_char c :: nat) in if 97 \<le> n \<and> n \<le> 122 then char_of (n - 32) else c)"

definition lower_char :: "char \<Rightarrow> char" where
  "lower_char c = (let n = (of_char c :: nat) in if 65 \<le> n \<and> n \<le> 90 then char_of (n + 32) else c)"

definition capitalize :: "string \<Rightarrow> string" where
  \<comment> \<open>\<open>str.capitalize\<close> on ASCII text: first character upper case, the rest lower case\<close>
  "capitalize s = (case s of [] \<Rightarrow> [] | c # cs \<Rightarrow> upper_char c # map lower_char cs)"

definition electron_count :: "atom \<Rightarrow> int" where
  \<comment> \<open>line 372: \<open>ELECTRON_COUNTS.get(atom.get('element', '*').capitalize(), 0) - atom.get('charge', 0)\<close>\<close>
  "electron_count a =
     get_default 0 (map_of ELECTRON_COUNTS (capitalize (get_default ''*'' (element a))))
       - get_default 0 (charge a)"

fun fill_shells :: "int list list \<Rightarrow> nat \<Rightarrow> int \<Rightarrow> (nat \<times> int) option" where
  \<comment> \<open>the \<open>for ... else\<close> loop of lines 374-381: \<open>Some (idx, electrons)\<close> at the \<open>break\<close>,
     \<open>None\<close> when the loop runs off the table (the \<open>else\<close> branch that raises)\<close>
  "fill_shells [] idx electrons = None"
| "fill_shells (shell # rest) idx electrons =
     (if sum_list shell \<le> electrons then fill_shells rest (Suc idx) (electrons - sum_list shell)
      else Some (idx, electrons))"

definition list_get :: "'a list \<Rightarrow> nat \<Rightarrow> error + 'a" where
  \<comment> \<open>\<open>xs[i]\<close> for an index that is not negative\<close>
  "list_get xs i = (if i < length xs then Inr (xs ! i) else Inl IndexError)"

definition valence_electrons :: "int \<Rightarrow> error + int list" where
  \<comment> \<open>lines 373-404, from the electron count on\<close>
  "valence_electrons electrons0 =
     (case fill_shells ORBITAL_SIZES 0 electrons0 of
        None \<Rightarrow> Inl ValueError
      | Some (idx, electrons) \<Rightarrow>
          (case list_get ORBITAL_SIZES idx of
             Inl e \<Rightarrow> Inl e
           | Inr shell \<Rightarrow>
              (let shell_size = sum_list shell;
                   to_assign = min electrons (shell_size div 2);
                   single_electrons = to_assign;
                   electrons1 = electrons - to_assign;
                   to_assign2 = min electrons1 (shell_size div 2);
                   electron_pairs = to_assign2;
                   single_electrons2 = single_electrons - to_assign2;
                   electrons2 = electrons1 - to_assign2
               in if electrons2 \<noteq> 0 then Inl AssertionError
                  else (case list_get ORBITAL_SIZES (idx + 1) of
                          Inl e \<Rightarrow> Inl e
                        | Inr next_shell \<Rightarrow>
                            if 3 \<le> length next_shell
                            then Inr (map (\<lambda>n. single_electrons2 + 2 * n) [0..electron_pairs])
                            else Inr [single_electrons2]))))"

definition valence :: "atom \<Rightarrow> error + int list" where
  "valence a = valence_electrons (electron_count a)"

definition mk_atom :: "string \<Rightarrow> int \<Rightarrow> atom" where
  \<comment> \<open>an atom dictionary with only \<open>element\<close> and \<open>charge\<close>\<close>
  "mk_atom el ch = \<lparr>element = Some el, charge = Some ch, hcount = None, aromatic = None,
     isotope = None, atom_class = None, stereo = None\<rparr>"

section \<open>Bond accounting\<close>

definition incident :: "nat \<Rightarrow> edge \<Rightarrow> bool" where
  "incident n e = (case e of (u, v, _) \<Rightarrow> u = n \<or> v = n)"

definition edge_order :: "edge \<Rightarrow> rat" where
  \<comment> \<open>the edge's \<open>order\<close>, with the default 1 that every reader of the attribute passes\<close>
  "edge_order e = (case e of (_, _, ord) \<Rightarrow> get_default 1 ord)"

definition bonds :: "graph \<Rightarrow> nat \<Rightarrow> bool \<Rightarrow> rat" where
  \<comment> \<open>\<open>_bonds\<close>, lines 426-432\<close>
  "bonds g n use_order =
     (if use_order then sum_list (map edge_order (filter (incident n) (edges g)))
      else of_nat (length (filter (incident n) (edges g))))"

definition py_int :: "rat \<Rightarrow> int" where
  \<comment> \<open>\<open>int(x)\<close> on a number: truncation towards zero\<close>
  "py_int x = (if 0 \<le> x then \<lfloor>x\<rfloor> else \<lceil>x\<rceil>)"

definition admissible :: "int list \<Rightarrow> rat \<Rightarrow> int list" where
  \<comment> \<open>\<open>[v for v in val if v >= bonds] or [0]\<close>\<close>
  "admissible val b = (let xs = filter (\<lambda>v. b \<le> of_int v) val in if xs = [] then [0] else xs)"

definition load :: "graph \<Rightarrow> nat \<Rightarrow> bool \<Rightarrow> atom \<Rightarrow> rat" where
  \<comment> \<open>lines 350-351: the bonds plus the stored hcount\<close>
  "load g n use_order a = bonds g n use_order + of_int (get_default 0 (hcount a))"

definition bonds_missing :: "graph \<Rightarrow> nat \<Rightarrow> bool \<Rightarrow> error + int" where
  "bonds_missing g n use_order =
     (case node_attr g n of
        None \<Rightarrow> Inl KeyError
      | Some a \<Rightarrow>
          (case valence a of
             Inl e \<Rightarrow> Inl e
           | Inr val \<Rightarrow>
               (case admissible val (load g n use_order a) of
                  [] \<Rightarrow> Inl IndexError
                | v0 # _ \<Rightarrow> Inr (py_int (max (of_int v0 - load g n use_order a) 0)))))"

definition has_default_h_count :: "graph \<Rightarrow> nat \<Rightarrow> bool \<Rightarrow> error + bool" where
  "has_default_h_count g n use_order =
     (case node_attr g n of
        None \<Rightarrow> Inl KeyError
      | Some a \<Rightarrow>
          (case valence a of
             Inl e \<Rightarrow> Inl e
           | Inr val \<Rightarrow>
               (case admissible val (bonds g n use_order) of
                  [] \<Rightarrow> Inl IndexError
                | v0 # _ \<Rightarrow>
                    Inr (max (of_int v0 - bonds g n use_order) 0 = of_int (get_default 0 (hcount a))))))"

section \<open>Bond-order incrementing\<close>

fun snapshot_missing :: "graph \<Rightarrow> nat list \<Rightarrow> (nat \<rightharpoonup> int) \<Rightarrow> error + (nat \<rightharpoonup> int)" where
  \<comment> \<open>lines 587-589: the dictionary \<open>missing_bonds\<close>, filled node by node\<close>
  "snapshot_missing g [] mb = Inr mb"
| "snapshot_missing g (idx # rest) mb =
     (case bonds_missing g idx True of
        Inl e \<Rightarrow> Inl e
      | Inr m \<Rightarrow> snapshot_missing g rest (mb(idx \<mapsto> max m 0)))"

definition increment_edge :: "rat \<Rightarrow> (nat \<rightharpoonup> int) \<Rightarrow> edge \<Rightarrow> error + (edge \<times> (nat \<rightharpoonup> int))" where
  \<comment> \<open>one pass through the body of the loop of lines 591-602\<close>
  "increment_edge max_bond_order mb e =
     (case e of (idx, jdx, ord) \<Rightarrow>
        (case mb idx of
           None \<Rightarrow> Inl KeyError
         | Some missing_idx \<Rightarrow>
             (case mb jdx of
                None \<Rightarrow> Inl KeyError
              | Some missing_jdx \<Rightarrow>
                  (let edge_missing = min missing_idx missing_jdx;
                       current_order = get_default 1 ord
                   in if current_order = 3 / 2 then Inr (e, mb)
                      else
                        (let new_order = min (of_int edge_missing + current_order) max_bond_order;
                             mb1 = mb(idx \<mapsto> missing_idx - edge_missing);
                             mb2 = mb1(jdx \<mapsto>
                                    (if jdx = idx then missing_idx - edge_missing else missing_jdx)
                                      - edge_missing)
                         in Inr ((idx, jdx, Some new_order), mb2))))))"

fun increment_edges :: "rat \<Rightarrow> (nat \<rightharpoonup> int) \<Rightarrow> edge list \<Rightarrow> error + edge list" where
  "increment_edges max_bond_order mb [] = Inr []"
| "increment_edges max_bond_order mb (e # rest) =
     (case increment_edge max_bond_order mb e of
        Inl err \<Rightarrow> Inl err
      | Inr (e', mb') \<Rightarrow>
          (case increment_edges max_bond_order mb' rest of
             Inl err \<Rightarrow> Inl err
           | Inr rest' \<Rightarrow> Inr (e' # rest')))"

definition increment_bond_orders :: "rat \<Rightarrow> graph \<Rightarrow> error + graph" where
  "increment_bond_orders max_bond_order g =
     (case snapshot_missing g (node_ids g) Map.empty of
        Inl err \<Rightarrow> Inl err
      | Inr mb \<Rightarrow>
          (case increment_edges max_bond_order mb (edges g) of
             Inl err \<Rightarrow> Inl err
           | Inr es \<Rightarrow> Inr (g\<lparr>edges := es\<rparr>)))"

section \<open>Hydrogen completion\<close>

definition fill_node :: "bool \<Rightarrow> nat \<Rightarrow> graph \<Rightarrow> error + graph" where
  \<comment> \<open>the body of the loop of lines 323-328\<close>
  "fill_node respect_hcount n_idx g =
     (case node_attr g n_idx of
        None \<Rightarrow> Inl KeyError
      | Some node \<Rightarrow>
          if hcount node \<noteq> None \<and> respect_hcount then Inr g
          else
            (case bonds_missing g n_idx True of
               Inl err \<Rightarrow> Inl err
             | Inr m \<Rightarrow>
                 Inr (update_node n_idx
                        (\<lambda>a. a\<lparr>hcount := Some (get_default 0 (hcount node) + max m 0)\<rparr>) g)))"

fun fill_nodes :: "bool \<Rightarrow> nat list \<Rightarrow> graph \<Rightarrow> error + graph" where
  "fill_nodes respect_hcount [] g = Inr g"
| "fill_nodes respect_hcount (n_idx # rest) g =
     (case fill_node respect_hcount n_idx g of
        Inl err \<Rightarrow> Inl err
      | Inr g' \<Rightarrow> fill_nodes respect_hcount rest g')"

definition fill_valence :: "bool \<Rightarrow> bool \<Rightarrow> rat \<Rightarrow> graph \<Rightarrow> error + graph" where
  \<comment> \<open>\<open>fill_valence(mol, respect_hcount, respect_bond_order, max_bond_order)\<close>; an exception
     is the value \<open>Inl\<close>, which drops the partly updated graph\<close>
  "fill_valence respect_hcount respect_bond_order max_bond_order g =
     (case (if \<not> respect_bond_order then increment_bond_orders max_bond_order g else Inr g) of
        Inl err \<Rightarrow> Inl err
      | Inr g1 \<Rightarrow> fill_nodes respect_hcount (node_ids g1) g1)"

section \<open>Aromatic edges\<close>

definition aromatic_truthy :: "atom \<Rightarrow> bool" where
  \<comment> \<open>the truth value of \<open>node.get('aromatic', 'False')\<close>: the default is the string
     \<open>'False'\<close>, and a string that is not empty is true\<close>
  "aromatic_truthy a = (case aromatic a of None \<Rightarrow> True | Some b \<Rightarrow> b)"

definition mark_edge :: "graph \<Rightarrow> edge \<Rightarrow> error + edge" where
  \<comment> \<open>the body of the loop of lines 541-545; \<open>all\<close> stops at the first false value\<close>
  "mark_edge g e =
     (case e of (u, v, ord) \<Rightarrow>
        (case node_attr g u of
           None \<Rightarrow> Inl KeyError
         | Some a \<Rightarrow>
             if \<not> aromatic_truthy a
             then Inr (u, v, (if ord = None then Some 1 else ord))
             else
               (case node_attr g v of
                  None \<Rightarrow> Inl KeyError
                | Some b \<Rightarrow>
                    if aromatic_truthy b then Inr (u, v, Some (3 / 2))
                    else Inr (u, v, (if ord = None then Some 1 else ord)))))"

fun mark_edges :: "graph \<Rightarrow> edge list \<Rightarrow> error + edge list" where
  "mark_edges g [] = Inr []"
| "mark_edges g (e # rest) =
     (case mark_edge g e of
        Inl err \<Rightarrow> Inl err
      | Inr e' \<Rightarrow>
          (case mark_edges g rest of
             Inl err \<Rightarrow> Inl err
           | Inr rest' \<Rightarrow> Inr (e' # rest')))"

definition mark_aromatic_edges :: "graph \<Rightarrow> error + graph" where
  "mark_aromatic_edges g =
     (case mark_edges g (edges g) of
        Inl err \<Rightarrow> Inl err
      | Inr es \<Rightarrow> Inr (g\<lparr>edges := es\<rparr>))"

section \<open>Atom tokens without brackets\<close>

definition islower :: "string \<Rightarrow> bool" where
  \<comment> \<open>\<open>str.islower\<close> on ASCII text: some cased character, and no upper-case one\<close>
  "islower s \<longleftrightarrow>
     list_ex (\<lambda>c. 97 \<le> (of_char c :: nat) \<and> (of_char c :: nat) \<le> 122) s \<and>
     \<not> list_ex (\<lambda>c. 65 \<le> (of_char c :: nat) \<and> (of_char c :: nat) \<le> 90) s"

definition parse_atom_bare :: "string \<Rightarrow> atom" where
  \<comment> \<open>lines 73-81 of \<open>parse_atom\<close>: the branch for a token that neither starts with \<open>[\<close>
     nor ends with \<open>]\<close>; it leaves \<open>hcount\<close> out unless the token is the wildcard\<close>
  "parse_atom_bare tok =
     (if tok \<noteq> ''*''
      then \<lparr>element = Some (capitalize tok), charge = Some 0, hcount = None,
             aromatic = Some (islower tok), isotope = None, atom_class = None, stereo = None\<rparr>
      else \<lparr>element = None, charge = Some 0, hcount = Some 0,
             aromatic = Some False, isotope = None, atom_class = None, stereo = None\<rparr>)"

section \<open>Example molecules\<close>

definition bracket_atom :: "string \<Rightarrow> atom" where
  \<comment> \<open>what \<open>parse_atom\<close> returns for a bracket atom with only an element, such as \<open>[C]\<close>:
     the defaults, with \<open>hcount\<close> present and 0\<close>
  "bracket_atom el = \<lparr>element = Some el, charge = Some 0, hcount = Some 0,
     aromatic = Some False, isotope = None, atom_class = None, stereo = None\<rparr>"

definition aromatic_pair :: graph where
  \<comment> \<open>two carbon atoms without hcount, joined by one aromatic bond\<close>
  "aromatic_pair = \<lparr>nodes = [(0, parse_atom_bare ''c''), (1, parse_atom_bare ''c'')],
     edges = [(0, 1, Some (3 / 2))]\<rparr>"

definition bracket_chain :: graph where
  \<comment> \<open>the chain \<open>[C][C][C]\<close>: every hcount is present and 0, no bond has an order yet\<close>
  "bracket_chain = \<lparr>nodes = [(0, bracket_atom ''C''), (1, bracket_atom ''C''), (2, bracket_atom ''C'')],
     edges = [(0, 1, None), (1, 2, None)]\<rparr>"


definition triple_chain :: graph where
  \<comment> \<open>\<open>[C]#[C][C]\<close> with the single bond first in the edge order\<close>
  "triple_chain = \<lparr>nodes = [(0, bracket_atom ''C''), (1, bracket_atom ''C''), (2, bracket_atom ''C'')],
     edges = [(1, 2, None), (0, 1, Some 3)]\<rparr>"

definition lone_hydrogen :: graph where
  \<comment> \<open>one hydrogen atom without hcount and without bonds\<close>
  "lone_hydrogen = \<lparr>nodes = [(0, parse_atom_bare ''H'')], edges = []\<rparr>"

definition bare_pair :: graph where
  \<comment> \<open>two carbon atoms whose dictionaries have no \<open>aromatic\<close> key, joined by a bond
     without order\<close>
  "bare_pair = \<lparr>nodes = [(0, mk_atom ''C'' 0), (1, mk_atom ''C'' 0)], edges = [(0, 1, None)]\<rparr>"

section \<open>Auxiliary predicates\<close>


section \<open>Explicit hydrogens\<close>

















section \<open>Auxiliary notions for explicit hydrogens\<close>

definition edges_closed :: "graph \<Rightarrow> bool" where
  \<comment> \<open>every edge joins two nodes of the graph (the second part of \<open>wf_graph\<close>)\<close>
  "edges_closed g \<longleftrightarrow> list_all (\<lambda>(u, v, _). u \<in> set (node_ids g) \<and> v \<in> set (node_ids g)) (edges g)"







section \<open>Aromatic atoms\<close>

text \<open>
  \<open>mark_aromatic_atoms\<close> calls four functions of the networkx library. Three of them
  (\<open>connected_components\<close>, \<open>max_weight_matching\<close>, \<open>cycle_basis\<close>) are parameters of
  the model. They read the node keys and the edges of the graph they are given and no
  attribute that a molecule carries (the matching reads \<open>weight\<close>, which is absent, so
  every weight is 1); they are therefore functions of the shape of the graph. The fourth,
  \<open>is_perfect_matching\<close>, is written out from its documentation.
\<close>

type_synonym shape = "nat list \<times> (nat \<times> nat) list"

definition shape_of :: "graph \<Rightarrow> shape" where
  \<comment> \<open>the node keys and the edges of a graph, without attributes\<close>
  "shape_of g = (node_ids g, map (\<lambda>(u, v, _). (u, v)) (edges g))"

definition subgraph :: "graph \<Rightarrow> nat list \<Rightarrow> graph" where
  \<comment> \<open>\<open>mol.subgraph(ns)\<close>: the nodes of \<open>mol\<close> that are in \<open>ns\<close> and the edges between them\<close>
  "subgraph g ns =
     g\<lparr>nodes := filter (\<lambda>(k, _). k \<in> set ns) (nodes g),
       edges := filter (\<lambda>(u, v, _). u \<in> set ns \<and> v \<in> set ns) (edges g)\<rparr>"

fun prune_nodes :: "nat list \<Rightarrow> graph \<Rightarrow> error + nat list" where
  \<comment> \<open>\<open>_prune_nodes\<close>, lines 459-469: the list \<open>new_nodes\<close>\<close>
  "prune_nodes [] g = Inr []"
| "prune_nodes (node # rest) g =
     (case node_attr g node of
        None \<Rightarrow> Inl KeyError
      | Some a \<Rightarrow>
          if get_default ''*'' (element a) = ''*''
          then (case prune_nodes rest g of Inl err \<Rightarrow> Inl err | Inr new_nodes \<Rightarrow> Inr (node # new_nodes))
          else
            (case bonds_missing g node True of
               Inl err \<Rightarrow> Inl err
             | Inr missing \<Rightarrow>
                 (case prune_nodes rest g of
                    Inl err \<Rightarrow> Inl err
                  | Inr new_nodes \<Rightarrow> Inr (if 0 < missing then node # new_nodes else new_nodes))))"

definition has_edge :: "shape \<Rightarrow> nat \<Rightarrow> nat \<Rightarrow> bool" where
  \<comment> \<open>\<open>G.has_edge(u, v)\<close> on an undirected graph\<close>
  "has_edge s u v \<longleftrightarrow> (u, v) \<in> set (snd s) \<or> (v, u) \<in> set (snd s)"

definition endpoints :: "(nat \<times> nat) list \<Rightarrow> nat list" where
  "endpoints m = concat (map (\<lambda>(u, v). [u, v]) m)"

definition is_matching :: "shape \<Rightarrow> (nat \<times> nat) list \<Rightarrow> bool" where
  \<comment> \<open>networkx: a set of edges of the graph, none of them a loop, no two of which share
     a node\<close>
  "is_matching s m \<longleftrightarrow> list_all (\<lambda>(u, v). u \<noteq> v \<and> has_edge s u v) m \<and> distinct (endpoints m)"

definition is_perfect_matching :: "shape \<Rightarrow> (nat \<times> nat) list \<Rightarrow> bool" where
  \<comment> \<open>networkx: a matching in which every node of the graph occurs; the library compares
     the number of matched nodes with the number of nodes\<close>
  "is_perfect_matching s m \<longleftrightarrow> is_matching s m \<and> length (endpoints m) = length (fst s)"

definition has_perfect_matching :: "shape \<Rightarrow> bool" where
  "has_perfect_matching s \<longleftrightarrow> (\<exists>m. is_perfect_matching s m)"

definition maximum_matching :: "shape \<Rightarrow> (nat \<times> nat) list \<Rightarrow> bool" where
  \<comment> \<open>what \<open>max_weight_matching\<close> promises when all weights are equal: a matching with
     as many edges as a matching of the graph can have\<close>
  "maximum_matching s m \<longleftrightarrow> is_matching s m \<and> (\<forall>m'. is_matching s m' \<longrightarrow> length m' \<le> length m)"

definition shape_closed :: "shape \<Rightarrow> bool" where
  \<comment> \<open>every edge joins two nodes of the shape\<close>
  "shape_closed s \<longleftrightarrow> list_all (\<lambda>(u, v). u \<in> set (fst s) \<and> v \<in> set (fst s)) (snd s)"

definition set_aromatic :: "bool \<Rightarrow> nat \<Rightarrow> graph \<Rightarrow> graph" where
  \<comment> \<open>\<open>mol.nodes[n]['aromatic'] = b\<close>\<close>
  "set_aromatic b n g = update_node n (\<lambda>a. a\<lparr>aromatic := Some b\<rparr>) g"

definition joins :: "nat \<Rightarrow> nat \<Rightarrow> edge \<Rightarrow> bool" where
  "joins a b e = (case e of (u, v, _) \<Rightarrow> (u = a \<and> v = b) \<or> (u = b \<and> v = a))"

definition set_edge_order :: "nat \<Rightarrow> nat \<Rightarrow> rat \<Rightarrow> graph \<Rightarrow> error + graph" where
  \<comment> \<open>\<open>mol.edges[a, b]['order'] = ord\<close>, a KeyError when the pair is not an edge\<close>
  "set_edge_order a b ord g =
     (if list_ex (joins a b) (edges g)
      then Inr (g\<lparr>edges := map (\<lambda>e. if joins a b e then (fst e, fst (snd e), Some ord) else e) (edges g)\<rparr>)
      else Inl KeyError)"

fun order_matched :: "nat list \<Rightarrow> (nat \<times> nat) list \<Rightarrow> graph \<Rightarrow> error + graph" where
  \<comment> \<open>the loop of lines 522-524\<close>
  "order_matched nodes_in_cycles [] g = Inr g"
| "order_matched nodes_in_cycles (edge # rest) g =
     (if fst edge \<notin> set nodes_in_cycles \<and> snd edge \<notin> set nodes_in_cycles
      then (case set_edge_order (fst edge) (snd edge) 2 g of
              Inl err \<Rightarrow> Inl err
            | Inr g' \<Rightarrow> order_matched nodes_in_cycles rest g')
      else order_matched nodes_in_cycles rest g)"

definition mark_component ::
  "(shape \<Rightarrow> (nat \<times> nat) list) \<Rightarrow> (shape \<Rightarrow> nat list list) \<Rightarrow> nat list \<Rightarrow> graph \<Rightarrow> error + graph" where
  \<comment> \<open>the body of the loop of lines 498-524, for the component \<open>sub_ds\<close>\<close>
  "mark_component max_weight_matching cycle_basis sub_ds g =
     (let sub_ds_graph = subgraph g sub_ds;
          max_match = max_weight_matching (shape_of sub_ds_graph)
      in if \<not> is_perfect_matching (shape_of sub_ds_graph) max_match then Inl SyntaxError
         else
           (let cycles = cycle_basis (shape_of sub_ds_graph);
                nodes_in_cycles = concat cycles;
                g1 = fold (set_aromatic True) nodes_in_cycles g;
                g2 = fold (set_aromatic False)
                       (filter (\<lambda>node. node \<notin> set nodes_in_cycles) (node_ids sub_ds_graph)) g1
            in order_matched nodes_in_cycles max_match g2))"

fun mark_components ::
  "(shape \<Rightarrow> (nat \<times> nat) list) \<Rightarrow> (shape \<Rightarrow> nat list list) \<Rightarrow> nat list list \<Rightarrow> graph \<Rightarrow> error + graph" where
  "mark_components max_weight_matching cycle_basis [] g = Inr g"
| "mark_components max_weight_matching cycle_basis (sub_ds # rest) g =
     (case mark_component max_weight_matching cycle_basis sub_ds g of
        Inl err \<Rightarrow> Inl err
      | Inr g' \<Rightarrow> mark_components max_weight_matching cycle_basis rest g')"

definition mark_aromatic_atoms ::
  "(shape \<Rightarrow> nat list list) \<Rightarrow> (shape \<Rightarrow> (nat \<times> nat) list) \<Rightarrow> (shape \<Rightarrow> nat list list) \<Rightarrow>
   nat list option \<Rightarrow> graph \<Rightarrow> error + graph" where
  \<comment> \<open>\<open>mark_aromatic_atoms(mol, atoms)\<close>; \<open>atoms = None\<close> stands for all nodes. The
     components are those of the pruned graph \<open>ds_graph\<close>; resetting \<open>aromatic\<close> does not
     change them\<close>
  "mark_aromatic_atoms connected_components max_weight_matching cycle_basis atoms g =
     (case prune_nodes (case atoms of None \<Rightarrow> node_ids g | Some ns \<Rightarrow> ns) g of
        Inl err \<Rightarrow> Inl err
      | Inr new_nodes \<Rightarrow>
          (let ds_graph = subgraph g new_nodes;
               g0 = fold (set_aromatic False) (node_ids g) g
           in mark_components max_weight_matching cycle_basis
                (connected_components (shape_of ds_graph)) g0))"

definition correct_aromatic_rings ::
  "(shape \<Rightarrow> nat list list) \<Rightarrow> (shape \<Rightarrow> (nat \<times> nat) list) \<Rightarrow> (shape \<Rightarrow> nat list list) \<Rightarrow>
   graph \<Rightarrow> error + graph" where
  \<comment> \<open>lines 562-564\<close>
  "correct_aromatic_rings connected_components max_weight_matching cycle_basis g =
     (case fill_valence True True 3 g of
        Inl err \<Rightarrow> Inl err
      | Inr g1 \<Rightarrow>
          (case mark_aromatic_atoms connected_components max_weight_matching cycle_basis
                  (Some (node_ids g1)) g1 of
             Inl err \<Rightarrow> Inl err
           | Inr g2 \<Rightarrow> mark_aromatic_edges g2))"

definition wildcard_ring5 :: graph where
  \<comment> \<open>five wildcard atoms in a ring\<close>
  "wildcard_ring5 =
     \<lparr>nodes = map (\<lambda>k. (k, parse_atom_bare ''*'')) [0, 1, 2, 3, 4],
      edges = [(0, 1, None), (1, 2, None), (2, 3, None), (3, 4, None), (4, 0, None)]\<rparr>"

section \<open>Properties of the valence model\<close>

lemma strict_upto: "sorted_wrt (<) (map (\<lambda>n. s + 2 * n) [i..j::int])"
  by (simp add: sorted_wrt_map)

lemma valence_electrons_index: "valence_electrons e = Inl IndexError \<longleftrightarrow> 54 \<le> e \<and> e < 86"
  by (auto simp: valence_electrons_def ORBITAL_SIZES_def list_get_def Let_def split: if_splits)

lemma valence_electrons_value: "valence_electrons e = Inl ValueError \<longleftrightarrow> 86 \<le> e"
  by (auto simp: valence_electrons_def ORBITAL_SIZES_def list_get_def Let_def split: if_splits)

lemma valence_electrons_shape:
  assumes "valence_electrons e = Inr vs"
  shows "vs \<noteq> [] \<and> sorted_wrt (<) vs"
  using assms
  by (auto simp: valence_electrons_def ORBITAL_SIZES_def list_get_def Let_def strict_upto
      split: if_splits)

lemma valence_electrons_nonneg:
  assumes "valence_electrons e = Inr vs" "0 \<le> e" "v \<in> set vs"
  shows "0 \<le> v"
  using assms
  apply (auto simp: valence_electrons_def ORBITAL_SIZES_def list_get_def Let_def split: if_splits)
  by (simp_all add: min_def)

lemma valence_electrons_returns:
  assumes "e < 54"
  shows "\<exists>vs. valence_electrons e = Inr vs"
  using assms
  by (auto simp: valence_electrons_def ORBITAL_SIZES_def list_get_def Let_def split: if_splits)

text \<open>
  C6, as the code has it. Whenever \<open>valence\<close> returns, the list is not empty and strictly
  ascending; its entries are non-negative when the charge does not exceed the electron
  count of the element; and \<open>valence\<close> does return for every atom with fewer than 54
  electrons left. Nothing in the function rejects a charge larger than the electron
  count, and then the only entry is negative.
\<close>

theorem valence_ascending:
  "(valence a = Inr vs \<longrightarrow> vs \<noteq> [] \<and> sorted_wrt (<) vs \<and>
      (0 \<le> electron_count a \<longrightarrow> list_all (\<lambda>v. 0 \<le> v) vs)) \<and>
   (electron_count a < 54 \<longrightarrow> (\<exists>ws. valence a = Inr ws))"
  unfolding valence_def list_all_iff
  using valence_electrons_shape valence_electrons_nonneg valence_electrons_returns
  by blast

theorem valence_ascending_witness:
  "valence (mk_atom ''S'' 0) = Inr [2, 4, 6] \<and> electron_count (mk_atom ''S'' 0) = 16 \<and>
   [2, 4, 6 :: int] \<noteq> [] \<and> sorted_wrt (<) [2, 4, 6 :: int] \<and> list_all (\<lambda>v. 0 \<le> v) [2, 4, 6 :: int]"
proof -
  have v: "valence (mk_atom ''S'' 0) = Inr [2, 4, 6]" by code_simp
  have e: "electron_count (mk_atom ''S'' 0) = 16" by code_simp
  show ?thesis using valence_ascending [of "mk_atom ''S'' 0" "[2, 4, 6]"] v e by simp
qed

text \<open>
  C6, as stated, fails: the token \<open>[H+2]\<close> is an accepted atom, and its
  valence list holds a negative number.
\<close>

theorem valence_negative_counterexample:
  "valence (mk_atom ''H'' 2) = Inr [- 1]"
  by code_simp

text \<open>
  C10. Iodide (element I, charge -1) has 54 electrons, which fill the first five shells
  exactly; the read of the shell after the sixth one is out of range. The same failure
  happens for every electron count from 54 to 85, and it is not the error of the
  \<open>else\<close> branch of the loop, which is raised from 86 electrons on.
\<close>

theorem valence_iodide_index_error:
  "electron_count (mk_atom ''I'' (- 1)) = 54 \<and>
   valence (mk_atom ''I'' (- 1)) = Inl IndexError \<and>
   IndexError \<noteq> ValueError \<and>
   (\<forall>a. (valence a = Inl IndexError) = (54 \<le> electron_count a \<and> electron_count a < 86)) \<and>
   (\<forall>a. (valence a = Inl ValueError) = (86 \<le> electron_count a))"
proof -
  have "electron_count (mk_atom ''I'' (- 1)) = 54" by code_simp
  then show ?thesis
    by (simp add: valence_def valence_electrons_index valence_electrons_value)
qed

section \<open>Properties of bond accounting\<close>

lemma first_of_filter_sorted:
  assumes "sorted_wrt (<) (vs::int list)" "filter P vs = x # xs"
  shows "x = Min (set (filter P vs))"
proof -
  have "sorted_wrt (<) (filter P vs)" using assms(1) by (rule sorted_wrt_filter)
  then have s: "sorted (x # xs)" unfolding assms(2) by (simp only: strict_sorted_iff)
  have "Min (set (x # xs)) = x" using s
    by (intro Min_eqI) auto
  then show ?thesis unfolding assms(2) by simp
qed

lemma admissible_first:
  assumes "sorted_wrt (<) val" "admissible val b = v0 # rest"
  shows "v0 = Min (set (admissible val b))"
proof (cases "filter (\<lambda>v. b \<le> of_int v) val = []")
  case True
  then show ?thesis using assms(2) by (simp add: admissible_def)
next
  case False
  then have eq: "admissible val b = filter (\<lambda>v. b \<le> of_int v) val"
    by (simp add: admissible_def)
  show ?thesis using first_of_filter_sorted [OF assms(1)] assms(2) unfolding eq by blast
qed

lemma admissible_nonempty: "admissible val b \<noteq> []"
  by (simp add: admissible_def Let_def)

lemma py_int_nonneg: "0 \<le> x \<Longrightarrow> py_int x = \<lfloor>x\<rfloor>"
  by (simp add: py_int_def)

text \<open>
  C5, as the code has it. For an atom of the graph whose valence list exists,
  \<open>bonds_missing\<close> returns (it does not raise, whatever the load), and the result is the
  integer part of \<open>max(min(admissible) - load, 0)\<close>, which is never negative. The
  function ends with \<open>int(...)\<close>, so a load that is not a whole number (an odd number of
  bonds of order 1.5) is rounded down.
\<close>

theorem bonds_missing_truncates:
  assumes "node_attr g n = Some a" and "valence a = Inr val"
  shows "\<exists>m. bonds_missing g n use_order = Inr m \<and>
           m = \<lfloor>max (of_int (Min (set (admissible val (load g n use_order a))))
                      - load g n use_order a) 0\<rfloor> \<and>
           0 \<le> m"
proof -
  have srt: "sorted_wrt (<) val"
    using assms(2) valence_electrons_shape unfolding valence_def by blast
  obtain v0 rest where adm: "admissible val (load g n use_order a) = v0 # rest"
    using admissible_nonempty by (cases "admissible val (load g n use_order a)") auto
  have v0: "v0 = Min (set (admissible val (load g n use_order a)))"
    using admissible_first [OF srt adm] .
  have "bonds_missing g n use_order = Inr (py_int (max (of_int v0 - load g n use_order a) 0))"
    using assms adm by (simp add: bonds_missing_def)
  then show ?thesis using v0 by (simp add: py_int_nonneg)
qed

theorem bonds_missing_truncates_witness:
  "node_attr aromatic_pair 0 = Some (parse_atom_bare ''c'') \<and>
   valence (parse_atom_bare ''c'') = Inr [4] \<and>
   bonds_missing aromatic_pair 0 True = Inr 2"
proof -
  have h1: "node_attr aromatic_pair 0 = Some (parse_atom_bare ''c'')" by code_simp
  have h2: "valence (parse_atom_bare ''c'') = Inr [4]" by code_simp
  have h3: "bonds_missing aromatic_pair 0 True = Inr 2" by code_simp
  show ?thesis using bonds_missing_truncates [OF h1 h2, of True] h1 h2 h3 by simp
qed

text \<open>
  C5, as stated, fails: a carbon atom with one bond of order 1.5 has load
  3/2 and the only admissible valence 4, so the stated formula gives 5/2; the code returns 2.
\<close>

theorem bonds_missing_formula_counterexample:
  "bonds_missing aromatic_pair 0 True = Inr 2 \<and>
   valence (parse_atom_bare ''c'') = Inr [4] \<and>
   load aromatic_pair 0 True (parse_atom_bare ''c'') = 3 / 2 \<and>
   max (of_int (Min (set (admissible [4] (3 / 2)))) - 3 / 2) 0 = (5 / 2 :: rat)"
  by code_simp

section \<open>Properties of bond-order incrementing\<close>

lemma increment_edge_new_order:
  assumes "mb idx = Some missing_idx" "mb jdx = Some missing_jdx" "get_default 1 ord \<noteq> 3 / 2"
  shows "\<exists>mb'. increment_edge max_bond_order mb (idx, jdx, ord) =
           Inr ((idx, jdx, Some (min (of_int (min missing_idx missing_jdx) + get_default 1 ord)
                                   max_bond_order)), mb') \<and>
           mb' jdx = Some ((if jdx = idx then missing_idx - min missing_idx missing_jdx
                            else missing_jdx) - min missing_idx missing_jdx)"
  using assms by (simp add: increment_edge_def Let_def)

text \<open>
  C1. The loop body sets the new order to \<open>min(current + min(missing[u], missing[v]),
  max_bond_order)\<close>, but it takes \<open>edge_missing\<close>, not the applied increase, from both
  budgets. With \<open>max_bond_order = 2\<close>, budgets 3 and 2 and a single bond, the order goes
  from 1 to 2 (an increase of 1) while both budgets drop by 2. On the chain
  \<open>[C][C][C]\<close> the middle atom therefore has nothing left for its second bond, which
  stays single.
\<close>

theorem increment_edge_deducts_unclamped:
  "map_sum id (\<lambda>(e, mb). (e, mb 0, mb 1)) (increment_edge 2 [0 \<mapsto> 3, 1 \<mapsto> 2] (0, 1, None))
     = Inr ((0, 1, Some 2), Some 1, Some 0) \<and>
   map_sum id edges (increment_bond_orders 2 bracket_chain)
     = Inr [(0, 1, Some 2), (1, 2, Some 1)]"
  by code_simp

section \<open>Properties of aromatic edges\<close>

text \<open>
  C2. Two atoms whose dictionaries have no \<open>aromatic\<close> key are not aromatic, yet the
  bond between them gets order 1.5: the default passed to \<open>get\<close> is the string
  \<open>'False'\<close>, which is true.
\<close>

theorem mark_aromatic_edges_absent_key:
  "map_sum id edges (mark_aromatic_edges bare_pair) = Inr [(0, 1, Some (3 / 2))]"
  by code_simp

section \<open>Properties of hydrogen completion\<close>

text \<open>
  C3. \<open>fill_valence\<close> gives a hydrogen atom that has no bond and no hcount the hcount 1,
  and raises nothing.
\<close>

theorem fill_valence_hydrogen_hcount:
  "map_sum id (\<lambda>g. map (\<lambda>(n, a). (n, element a, hcount a)) (nodes g))
     (fill_valence True True 3 lone_hydrogen) = Inr [(0, Some ''H'', Some 1)]"
  by code_simp

text \<open>
  C7. After \<open>fill_valence\<close> with the default settings, an atom with one bond of order 1.5
  has hcount 2 (the integer part of 5/2), and \<open>has_default_h_count\<close>, which compares
  the hcount with 5/2 itself, returns false.
\<close>

theorem has_default_h_count_aromatic_bond:
  "(case fill_valence True True 3 aromatic_pair of
      Inl err \<Rightarrow> Inl err
    | Inr g \<Rightarrow> has_default_h_count g 0 True) = Inr False"
  by code_simp



lemma node_ids_update_node: "node_ids (update_node n f g) = node_ids g"
  unfolding node_ids_def update_node_def by (induction "nodes g") (auto simp: case_prod_beta)

lemma edges_update_node: "edges (update_node n f g) = edges g"
  by (simp add: update_node_def)






text \<open>
  A second input of the same kind: a triple bond with \<open>max_bond_order = 2\<close>. The first
  run clamps the triple bond down to 2, which frees capacity that the second run spends
  on the single bond.
\<close>

lemma fill_valence_twice_clamped_down:
  "map_sum id edges (fill_valence True False 2 triple_chain) = Inr [(1, 2, Some 1), (0, 1, Some 2)] \<and>
   map_sum id edges (case fill_valence True False 2 triple_chain of
      Inl err \<Rightarrow> Inl err
    | Inr g' \<Rightarrow> fill_valence True False 2 g') = Inr [(1, 2, Some 2), (0, 1, Some 2)]"
  by code_simp

section \<open>Properties of explicit hydrogens\<close>







































section \<open>Properties of aromatic atoms\<close>

lemma length_endpoints: "length (endpoints m) = 2 * length m"
  by (induction m) (auto simp: endpoints_def)

lemma endpoints_in_nodes:
  assumes "shape_closed s" "is_matching s m"
  shows "set (endpoints m) \<subseteq> set (fst s)"
  using assms
  by (induction m) (auto simp: endpoints_def is_matching_def shape_closed_def has_edge_def list_all_iff)

lemma matching_size:
  assumes "shape_closed s" "is_matching s m"
  shows "2 * length m \<le> length (fst s)"
proof -
  have "distinct (endpoints m)" using assms(2) by (simp add: is_matching_def)
  then have "length (endpoints m) = card (set (endpoints m))" by (simp add: distinct_card)
  also have "\<dots> \<le> card (set (fst s))"
    using endpoints_in_nodes [OF assms] by (simp add: card_mono)
  also have "\<dots> \<le> length (fst s)" by (rule card_length)
  finally show ?thesis by (simp add: length_endpoints)
qed

lemma maximum_matching_perfect:
  assumes "shape_closed s" "maximum_matching s m"
  shows "is_perfect_matching s m \<longleftrightarrow> has_perfect_matching s"
proof
  assume "is_perfect_matching s m"
  then show "has_perfect_matching s" unfolding has_perfect_matching_def by blast
next
  assume "has_perfect_matching s"
  then obtain m' where m': "is_matching s m'" "length (endpoints m') = length (fst s)"
    unfolding has_perfect_matching_def is_perfect_matching_def by blast
  have m: "is_matching s m" and "length m' \<le> length m"
    using assms(2) m'(1) unfolding maximum_matching_def by auto
  then have "length (fst s) \<le> 2 * length m" using m'(2) by (simp add: length_endpoints)
  moreover have "2 * length m \<le> length (fst s)" using matching_size [OF assms(1) m] .
  ultimately show "is_perfect_matching s m"
    using m by (simp add: is_perfect_matching_def length_endpoints)
qed

lemma odd_no_perfect_matching:
  assumes "odd (length (fst s))"
  shows "\<not> is_perfect_matching s m"
proof
  assume "is_perfect_matching s m"
  then have "length (fst s) = 2 * length m"
    by (simp add: is_perfect_matching_def length_endpoints)
  then have "even (length (fst s))" by simp
  then show False using assms by simp
qed

lemma shape_update_node: "shape_of (update_node n f g) = shape_of g"
  by (simp add: shape_of_def node_ids_update_node edges_update_node)

lemma shape_fold_set_aromatic: "shape_of (fold (set_aromatic b) ns g) = shape_of g"
  by (induction ns arbitrary: g) (auto simp: set_aromatic_def shape_update_node)

lemma shape_set_edge_order:
  assumes "set_edge_order a b ord g = Inr g'"
  shows "shape_of g' = shape_of g"
proof -
  have "map (\<lambda>(u, v, _). (u, v)) (map (\<lambda>e. if joins a b e then (fst e, fst (snd e), Some ord) else e) es)
      = map (\<lambda>(u, v, _). (u, v)) es" for es :: "edge list"
    by (induction es) auto
  then show ?thesis using assms
    by (auto simp: set_edge_order_def shape_of_def node_ids_def split: if_splits)
qed

lemma set_edge_order_ok:
  assumes "has_edge (shape_of g) a b"
  shows "\<exists>g'. set_edge_order a b ord g = Inr g'"
proof -
  have "list_ex (joins a b) (edges g)"
    using assms unfolding has_edge_def shape_of_def list_ex_iff joins_def by force
  then show ?thesis by (simp add: set_edge_order_def)
qed

lemma shape_subgraph:
  "shape_of (subgraph g c) =
     (filter (\<lambda>k. k \<in> set c) (fst (shape_of g)),
      filter (\<lambda>(u, v). u \<in> set c \<and> v \<in> set c) (snd (shape_of g)))"
  by (auto simp: shape_of_def subgraph_def node_ids_def filter_map comp_def case_prod_beta
      intro!: arg_cong [where f = "map fst"] arg_cong2 [where f = map] filter_cong)

lemma shape_subgraph_cong:
  "shape_of g' = shape_of g \<Longrightarrow> shape_of (subgraph g' c) = shape_of (subgraph g c)"
  by (simp add: shape_subgraph)

lemma has_edge_subgraph:
  "has_edge (shape_of (subgraph g c)) u v \<Longrightarrow> has_edge (shape_of g) u v"
  by (auto simp: shape_subgraph has_edge_def)

lemma order_matched_ok:
  assumes "\<forall>(u, v)\<in>set m. has_edge (shape_of g) u v"
  shows "\<exists>g'. order_matched nic m g = Inr g' \<and> shape_of g' = shape_of g"
  using assms
proof (induction m arbitrary: g)
  case Nil
  then show ?case by simp
next
  case (Cons e m)
  obtain u v where e: "e = (u, v)" by (cases e)
  show ?case
  proof (cases "u \<notin> set nic \<and> v \<notin> set nic")
    case True
    have "has_edge (shape_of g) u v" using Cons.prems e by simp
    from set_edge_order_ok [OF this] obtain g1 where g1: "set_edge_order u v 2 g = Inr g1" by blast
    have s1: "shape_of g1 = shape_of g" using shape_set_edge_order [OF g1] .
    have "\<forall>(u, v)\<in>set m. has_edge (shape_of g1) u v" using Cons.prems s1 by simp
    from Cons.IH [OF this] show ?thesis using True e g1 s1 by auto
  next
    case False
    have "\<forall>(u, v)\<in>set m. has_edge (shape_of g) u v" using Cons.prems by simp
    from Cons.IH [OF this] show ?thesis using False e by auto
  qed
qed

lemma mark_component_error:
  assumes "\<not> is_perfect_matching (shape_of (subgraph g c)) (mwm (shape_of (subgraph g c)))"
  shows "mark_component mwm cb c g = Inl SyntaxError"
  using assms by (simp add: mark_component_def Let_def)

lemma mark_component_ok:
  assumes "is_perfect_matching (shape_of (subgraph g c)) (mwm (shape_of (subgraph g c)))"
  shows "\<exists>g'. mark_component mwm cb c g = Inr g' \<and> shape_of g' = shape_of g"
proof -
  let ?s = "shape_of (subgraph g c)"
  let ?nic = "concat (cb ?s)"
  let ?g2 = "fold (set_aromatic False) (filter (\<lambda>node. node \<notin> set ?nic) (node_ids (subgraph g c)))
               (fold (set_aromatic True) ?nic g)"
  have s2: "shape_of ?g2 = shape_of g" by (simp add: shape_fold_set_aromatic)
  have "\<forall>(u, v)\<in>set (mwm ?s). has_edge ?s u v"
    using assms by (auto simp: is_perfect_matching_def is_matching_def list_all_iff)
  then have "\<forall>(u, v)\<in>set (mwm ?s). has_edge (shape_of ?g2) u v"
    using has_edge_subgraph s2 by fastforce
  from order_matched_ok [OF this, of ?nic] obtain g' where
    "order_matched ?nic (mwm ?s) ?g2 = Inr g'" "shape_of g' = shape_of ?g2" by blast
  then show ?thesis using assms s2 by (simp add: mark_component_def Let_def)
qed

lemma mark_components_error:
  "mark_components mwm cb cs g = Inl SyntaxError \<longleftrightarrow>
     (\<exists>c\<in>set cs. \<not> is_perfect_matching (shape_of (subgraph g c)) (mwm (shape_of (subgraph g c))))"
proof (induction cs arbitrary: g)
  case Nil
  then show ?case by simp
next
  case (Cons c cs)
  show ?case
  proof (cases "is_perfect_matching (shape_of (subgraph g c)) (mwm (shape_of (subgraph g c)))")
    case False
    then have "mark_component mwm cb c g = Inl SyntaxError" by (rule mark_component_error)
    then show ?thesis using False by simp
  next
    case True
    from True have "\<exists>g'. mark_component mwm cb c g = Inr g' \<and> shape_of g' = shape_of g"
      by (rule mark_component_ok)
    then obtain g' where
      g': "mark_component mwm cb c g = Inr g'" and s: "shape_of g' = shape_of g" by blast
    have "\<And>d. shape_of (subgraph g' d) = shape_of (subgraph g d)"
      using s by (rule shape_subgraph_cong)
    then show ?thesis using g' True Cons.IH [of g'] by simp
  qed
qed

lemma shape_closed_subgraph:
  assumes "edges_closed g"
  shows "shape_closed (shape_of (subgraph g c))"
  using assms
  by (auto simp: shape_closed_def edges_closed_def list_all_iff shape_of_def subgraph_def node_ids_def)
     force+

lemma mark_aromatic_atoms_components:
  assumes "prune_nodes (case atoms of None \<Rightarrow> node_ids g | Some ns \<Rightarrow> ns) g = Inr new_nodes"
  shows "mark_aromatic_atoms cc mwm cb atoms g = Inl SyntaxError \<longleftrightarrow>
     (\<exists>c\<in>set (cc (shape_of (subgraph g new_nodes))).
        \<not> is_perfect_matching (shape_of (subgraph g c)) (mwm (shape_of (subgraph g c))))"
proof -
  let ?g0 = "fold (set_aromatic False) (node_ids g) g"
  have "shape_of ?g0 = shape_of g" by (rule shape_fold_set_aromatic)
  then have "\<And>d. shape_of (subgraph ?g0 d) = shape_of (subgraph g d)"
    by (rule shape_subgraph_cong)
  then show ?thesis
    using assms by (simp add: mark_aromatic_atoms_def Let_def mark_components_error)
qed

text \<open>
  C4. Let the graph be closed under its edges, let pruning succeed, and let
  \<open>max_weight_matching\<close> keep its promise on every component: it returns a matching of
  maximum size. Then \<open>mark_aromatic_atoms\<close> raises the SyntaxError ("cannot be
  kekulized") if and only if some component of the pruned graph has no perfect matching.
  In particular a component with an odd number of nodes raises it, whatever the
  matching function returns.
\<close>

theorem mark_aromatic_atoms_kekulize_error:
  assumes "edges_closed g"
    and "prune_nodes (case atoms of None \<Rightarrow> node_ids g | Some ns \<Rightarrow> ns) g = Inr new_nodes"
    and "\<forall>c\<in>set (cc (shape_of (subgraph g new_nodes))).
           maximum_matching (shape_of (subgraph g c)) (mwm (shape_of (subgraph g c)))"
  shows "(mark_aromatic_atoms cc mwm cb atoms g = Inl SyntaxError \<longleftrightarrow>
            (\<exists>c\<in>set (cc (shape_of (subgraph g new_nodes))).
               \<not> has_perfect_matching (shape_of (subgraph g c)))) \<and>
         ((\<exists>c\<in>set (cc (shape_of (subgraph g new_nodes))). odd (length (node_ids (subgraph g c)))) \<longrightarrow>
            mark_aromatic_atoms cc mwm cb atoms g = Inl SyntaxError)"
proof
  have "\<And>c. c \<in> set (cc (shape_of (subgraph g new_nodes))) \<Longrightarrow>
      is_perfect_matching (shape_of (subgraph g c)) (mwm (shape_of (subgraph g c)))
        \<longleftrightarrow> has_perfect_matching (shape_of (subgraph g c))"
    using maximum_matching_perfect shape_closed_subgraph [OF assms(1)] assms(3) by blast
  then show "mark_aromatic_atoms cc mwm cb atoms g = Inl SyntaxError \<longleftrightarrow>
            (\<exists>c\<in>set (cc (shape_of (subgraph g new_nodes))).
               \<not> has_perfect_matching (shape_of (subgraph g c)))"
    unfolding mark_aromatic_atoms_components [OF assms(2)] by blast
next
  show "(\<exists>c\<in>set (cc (shape_of (subgraph g new_nodes))). odd (length (node_ids (subgraph g c)))) \<longrightarrow>
            mark_aromatic_atoms cc mwm cb atoms g = Inl SyntaxError"
  proof
    assume "\<exists>c\<in>set (cc (shape_of (subgraph g new_nodes))). odd (length (node_ids (subgraph g c)))"
    then obtain c where c: "c \<in> set (cc (shape_of (subgraph g new_nodes)))"
      and odd: "odd (length (fst (shape_of (subgraph g c))))"
      by (auto simp: shape_of_def)
    have "\<not> is_perfect_matching (shape_of (subgraph g c)) (mwm (shape_of (subgraph g c)))"
      using odd by (rule odd_no_perfect_matching)
    then show "mark_aromatic_atoms cc mwm cb atoms g = Inl SyntaxError"
      unfolding mark_aromatic_atoms_components [OF assms(2)] using c by blast
  qed
qed

theorem mark_aromatic_atoms_kekulize_error_witness:
  "edges_closed wildcard_ring5 \<and>
   prune_nodes (node_ids wildcard_ring5) wildcard_ring5 = Inr [0, 1, 2, 3, 4] \<and>
   maximum_matching (shape_of (subgraph wildcard_ring5 [0, 1, 2, 3, 4])) [(0, 1), (2, 3)] \<and>
   odd (length (node_ids (subgraph wildcard_ring5 [0, 1, 2, 3, 4]))) \<and>
   \<not> has_perfect_matching (shape_of (subgraph wildcard_ring5 [0, 1, 2, 3, 4])) \<and>
   mark_aromatic_atoms (\<lambda>s. [[0, 1, 2, 3, 4]]) (\<lambda>s. [(0, 1), (2, 3)]) (\<lambda>s. [[0, 1, 2, 3, 4]])
     None wildcard_ring5 = Inl SyntaxError"
proof -
  let ?s = "shape_of (subgraph wildcard_ring5 [0, 1, 2, 3, 4])"
  have closed: "edges_closed wildcard_ring5" by code_simp
  have prune: "prune_nodes (case None of None \<Rightarrow> node_ids wildcard_ring5 | Some ns \<Rightarrow> ns) wildcard_ring5
      = Inr [0, 1, 2, 3, 4]" by code_simp
  have m: "is_matching ?s [(0, 1), (2, 3)]" by code_simp
  have len: "length (fst ?s) = 5" by code_simp
  have "\<forall>m'. is_matching ?s m' \<longrightarrow> length m' \<le> length [(0, 1), (2, 3 :: nat) :: nat \<times> nat]"
    using matching_size [OF shape_closed_subgraph [OF closed]] len by fastforce
  then have mx: "maximum_matching ?s [(0, 1), (2, 3)]"
    unfolding maximum_matching_def using m by blast
  have odd: "odd (length (node_ids (subgraph wildcard_ring5 [0, 1, 2, 3, 4])))" by code_simp
  have contract: "\<forall>c\<in>set ((\<lambda>s. [[0, 1, 2, 3, 4]]) (shape_of (subgraph wildcard_ring5 [0, 1, 2, 3, 4]))).
      maximum_matching (shape_of (subgraph wildcard_ring5 c))
        ((\<lambda>s. [(0, 1), (2, 3)]) (shape_of (subgraph wildcard_ring5 c)))"
    using mx by simp
  from mark_aromatic_atoms_kekulize_error [OF closed prune contract, of "\<lambda>s. [[0, 1, 2, 3, 4]]"]
  show ?thesis using closed prune mx odd by auto
qed

end
